theory Spec2Isabelle
  imports Complex_Main
begin

section \<open>JavaScript numbers\<close>

text \<open>
  The simulator computes with JavaScript numbers. They are modelled as exact rationals
  extended with the three special values of IEEE arithmetic that the code can produce by
  dividing by zero: \<open>Infinity\<close>, \<open>-Infinity\<close> and
  \<open>NaN\<close>. The special values
  propagate as in JavaScript and every comparison with \<open>NaN\<close> is false.
  Rounding to 53
  bits, overflow and the sign of zero are not modelled: a finite result is the exact
  rational, and a zero divisor counts as \<open>+0\<close>. The concrete runs below are
  therefore evaluated exactly. The properties proved for every input are stated with the
  expressions of the source as the source associates them, so that they do not rest on an
  identity of exact arithmetic that rounding would break.
\<close>

datatype number = Fin rat | PosInf | NegInf | NaN

fun num_add :: "number \<Rightarrow> number \<Rightarrow> number" where
  "num_add NaN _ = NaN"
| "num_add _ NaN = NaN"
| "num_add PosInf NegInf = NaN"
| "num_add NegInf PosInf = NaN"
| "num_add PosInf _ = PosInf"
| "num_add _ PosInf = PosInf"
| "num_add NegInf _ = NegInf"
| "num_add _ NegInf = NegInf"
| "num_add (Fin a) (Fin b) = Fin (a + b)"

fun num_neg :: "number \<Rightarrow> number" where
  "num_neg (Fin a) = Fin (- a)"
| "num_neg PosInf = NegInf"
| "num_neg NegInf = PosInf"
| "num_neg NaN = NaN"

fun num_mul :: "number \<Rightarrow> number \<Rightarrow> number" where
  "num_mul NaN _ = NaN"
| "num_mul _ NaN = NaN"
| "num_mul (Fin a) (Fin b) = Fin (a * b)"
| "num_mul (Fin a) PosInf = (if a = 0 then NaN else if 0 < a then PosInf else NegInf)"
| "num_mul (Fin a) NegInf = (if a = 0 then NaN else if 0 < a then NegInf else PosInf)"
| "num_mul PosInf (Fin b) = (if b = 0 then NaN else if 0 < b then PosInf else NegInf)"
| "num_mul NegInf (Fin b) = (if b = 0 then NaN else if 0 < b then NegInf else PosInf)"
| "num_mul PosInf PosInf = PosInf"
| "num_mul PosInf NegInf = NegInf"
| "num_mul NegInf PosInf = NegInf"
| "num_mul NegInf NegInf = PosInf"

fun num_div :: "number \<Rightarrow> number \<Rightarrow> number" where
  "num_div NaN _ = NaN"
| "num_div _ NaN = NaN"
| "num_div (Fin a) (Fin b) =
     (if b = 0 then (if a = 0 then NaN else if 0 < a then PosInf else NegInf)
      else Fin (a / b))"
| "num_div (Fin a) PosInf = Fin 0"
| "num_div (Fin a) NegInf = Fin 0"
| "num_div PosInf (Fin b) = (if 0 \<le> b then PosInf else NegInf)"
| "num_div NegInf (Fin b) = (if 0 \<le> b then NegInf else PosInf)"
| "num_div PosInf PosInf = NaN"
| "num_div PosInf NegInf = NaN"
| "num_div NegInf PosInf = NaN"
| "num_div NegInf NegInf = NaN"

fun num_less :: "number \<Rightarrow> number \<Rightarrow> bool" where
  "num_less NaN _ = False"
| "num_less _ NaN = False"
| "num_less (Fin a) (Fin b) = (a < b)"
| "num_less (Fin a) PosInf = True"
| "num_less (Fin a) NegInf = False"
| "num_less PosInf _ = False"
| "num_less NegInf (Fin b) = True"
| "num_less NegInf PosInf = True"
| "num_less NegInf NegInf = False"

fun num_less_eq :: "number \<Rightarrow> number \<Rightarrow> bool" where
  "num_less_eq NaN _ = False"
| "num_less_eq _ NaN = False"
| "num_less_eq (Fin a) (Fin b) = (a \<le> b)"
| "num_less_eq (Fin a) PosInf = True"
| "num_less_eq (Fin a) NegInf = False"
| "num_less_eq PosInf PosInf = True"
| "num_less_eq PosInf _ = False"
| "num_less_eq NegInf _ = True"

text \<open>
  The arithmetic and comparison operators of the source are written with the usual
  symbols. \<open>a > b\<close> abbreviates \<open>b < a\<close>, as in JavaScript. No
  order law is assumed:
  with \<open>NaN\<close> neither \<open>a < b\<close> nor \<open>b \<le> a\<close> holds.
\<close>

instantiation number :: "{zero, numeral, uminus, minus, times, inverse, ord}"
begin

definition zero_number :: number where "zero_number = Fin 0"
definition one_number :: number where "one_number = Fin 1"
definition plus_number :: "number \<Rightarrow> number \<Rightarrow> number" where "plus_number = num_add"
definition uminus_number :: "number \<Rightarrow> number" where "uminus_number = num_neg"
definition minus_number :: "number \<Rightarrow> number \<Rightarrow> number" where
  "minus_number a b = num_add a (num_neg b)"
definition times_number :: "number \<Rightarrow> number \<Rightarrow> number" where "times_number = num_mul"
definition divide_number :: "number \<Rightarrow> number \<Rightarrow> number" where "divide_number = num_div"
definition inverse_number :: "number \<Rightarrow> number" where "inverse_number = num_div (Fin 1)"
definition less_number :: "number \<Rightarrow> number \<Rightarrow> bool" where "less_number = num_less"
definition less_eq_number :: "number \<Rightarrow> number \<Rightarrow> bool" where "less_eq_number = num_less_eq"

instance
proof
  fix a b c :: number
  show "a + b + c = a + (b + c)"
    unfolding plus_number_def by (cases a; cases b; cases c) simp_all
qed

end

text \<open>  \<open>Math.min\<close>: \<open>NaN\<close> if either argument is, the smaller one
  otherwise.\<close>

fun Math_min :: "number \<Rightarrow> number \<Rightarrow> number" where
  "Math_min NaN _ = NaN"
| "Math_min _ NaN = NaN"
| "Math_min a b = (if a < b then a else b)"

text \<open>
  A value that may be \<open>undefined\<close>: a field that was never assigned, or an
  array read
  past the end. \<open>ToNumber\<close> is the conversion applied by arithmetic and
  comparison
  operators, which turns \<open>undefined\<close> into \<open>NaN\<close>.
\<close>

type_synonym jsval = "number option"

definition ToNumber :: "jsval \<Rightarrow> number" where
  "ToNumber v = (case v of None \<Rightarrow> NaN | Some x \<Rightarrow> x)"

definition array_get :: "'a list \<Rightarrow> nat \<Rightarrow> 'a option" where
  "array_get xs i = (if i < length xs then Some (xs ! i) else None)"

section \<open>The simulation engine\<close>

text \<open>
  The repository holds two versions of \<open>calculateSimulation\<close>. The one of
  \<open>src/app.js\<close> reads the annual figures from the two arrays
  \<open>annualReturns\<close> and
  \<open>annualInflations\<close>; the one of the second source file reads them from one
  array
  \<open>annualData\<close> of records. The line numbers below are those of
  \<open>src/app.js\<close>; the
  loop body of the second file is the same but for these reads.
\<close>

text \<open>
  The rule tags are the strings that \<open>formatRule\<close> of the source labels
  \<open>(Inflation)\<close>, \<open>(Freeze)\<close>, \<open>(CPR)\<close> and
  \<open>(PR)\<close>, and the tag of the first
  year, which has no label.
\<close>

datatype rule_tag = Initial | Inflation | InflationFrozen | CapitalPreservation | Prosperity

text \<open>
  The parameters that both versions take. \<open>simulationYears\<close> is the result of
  \<open>parseInt\<close>, an integer; for \<open>NaN\<close> the loop test fails at
  once, as it does
  for 0.
\<close>

record simulationParams =
  initialAssets :: number
  initialWithdrawalRate :: number
  simulationYears :: int

record params = simulationParams +
  annualReturns :: "number list"
  annualInflations :: "number list"

text \<open>
  One element of \<open>simulationData\<close>. The fields \<open>inflation\<close> and
  \<open>returnRate\<close> are
  read from the input arrays and are \<open>undefined\<close> when the array is too short;
  \<open>plannedRate\<close> is assigned in the \<open>else\<close> branch of the loop
  body only.
\<close>

record yearData =
  year :: int
  startWorth :: number
  inflation :: jsval
  plannedWithdrawal :: number
  plannedRate :: jsval
  rule :: rule_tag
  actualWithdrawal :: number
  actualRate :: number
  postWithdrawalBalance :: number
  returnRate :: jsval
  endWorth :: number

definition lowerGuardrail :: "'a simulationParams_scheme \<Rightarrow> number" where
  "lowerGuardrail p = initialWithdrawalRate p * 1.2"

definition upperGuardrail :: "'a simulationParams_scheme \<Rightarrow> number" where
  "upperGuardrail p = initialWithdrawalRate p * 0.8"

text \<open>
  Lines 126 to 138: the inflation adjustment of a year after the first. The result is
  the planned withdrawal and the rule tag assigned with it.
\<close>

definition inflationAdjustment ::
  "'a simulationParams_scheme \<Rightarrow> jsval \<Rightarrow> number \<Rightarrow> jsval \<Rightarrow> number
     \<Rightarrow> number \<times> rule_tag" where
  "inflationAdjustment p prevReturn startWorth' inflation' lastYearActualWithdrawal =
     (let inflationToApply = Math_min (ToNumber inflation') 6.0;
          plannedWithdrawalWithInflation = lastYearActualWithdrawal * (1 + inflationToApply / 100);
          plannedRateWithInflation = (plannedWithdrawalWithInflation / startWorth') * 100
      in if ToNumber prevReturn < 0 \<and> plannedRateWithInflation > initialWithdrawalRate p
         then (lastYearActualWithdrawal, InflationFrozen)
         else (plannedWithdrawalWithInflation, Inflation))"

text \<open>
  Lines 141 to 149: the guardrails, which may replace the rule tag and the withdrawal.
\<close>

definition guardrails ::
  "'a simulationParams_scheme \<Rightarrow> number \<Rightarrow> number \<Rightarrow> rule_tag \<Rightarrow> rule_tag \<times> number" where
  "guardrails p plannedRate' plannedWithdrawal' rule' =
     (if plannedRate' > lowerGuardrail p then (CapitalPreservation, plannedWithdrawal' * 0.9)
      else if plannedRate' < upperGuardrail p then (Prosperity, plannedWithdrawal' * 1.1)
      else (rule', plannedWithdrawal'))"

text \<open>The body of the loop, lines 116 to 157, for the index \<open>i\<close>.\<close>

definition yearBody :: "params \<Rightarrow> nat \<Rightarrow> yearData list \<Rightarrow> number \<Rightarrow> yearData" where
  "yearBody p i simulationData lastYearActualWithdrawal =
     (let startWorth' = (if i = 0 then initialAssets p else endWorth (simulationData ! (i - 1)));
          (inflation', plannedWithdrawal', plannedRate', rule', actualWithdrawal') =
            (if i = 0
             then (Some 0, lastYearActualWithdrawal, None, Initial, lastYearActualWithdrawal)
             else
               (let inflation' = array_get (annualInflations p) i;
                    prevReturn = returnRate (simulationData ! (i - 1));
                    (plannedWithdrawal', rule0) =
                      inflationAdjustment p prevReturn startWorth' inflation'
                        lastYearActualWithdrawal;
                    plannedRate' = (plannedWithdrawal' / startWorth') * 100;
                    (rule', actualWithdrawal') =
                      guardrails p plannedRate' plannedWithdrawal' rule0
                in (inflation', plannedWithdrawal', Some plannedRate', rule', actualWithdrawal')));
          postWithdrawalBalance' = startWorth' - actualWithdrawal';
          returnRate' = array_get (annualReturns p) i
      in \<lparr> year = int i, startWorth = startWorth', inflation = inflation',
           plannedWithdrawal = plannedWithdrawal', plannedRate = plannedRate', rule = rule',
           actualWithdrawal = actualWithdrawal',
           actualRate = (actualWithdrawal' / startWorth') * 100,
           postWithdrawalBalance = postWithdrawalBalance',
           returnRate = returnRate',
           endWorth = postWithdrawalBalance' * (1 + ToNumber returnRate' / 100) \<rparr>)"

text \<open>
  The \<open>for\<close> loop of lines 115 to 159, with its two mutable variables as
  arguments.
  \<open>simulationData\<close> has \<open>i\<close> elements whenever the body runs, so
  that the read of
  \<open>simulationData[i - 1]\<close> is in range for \<open>i > 0\<close>.
\<close>

function calculateSimulation_loop ::
  "params \<Rightarrow> nat \<Rightarrow> yearData list \<Rightarrow> number \<Rightarrow> yearData list" where
  "calculateSimulation_loop p i simulationData lastYearActualWithdrawal =
     (if int i < simulationYears p
      then (let yd = yearBody p i simulationData lastYearActualWithdrawal
            in calculateSimulation_loop p (Suc i) (simulationData @ [yd]) (actualWithdrawal yd))
      else simulationData)"
  by pat_completeness auto
termination
  by (relation "measure (\<lambda>(p, i, sd, w). nat (simulationYears p - int i))") auto

definition calculateSimulation :: "params \<Rightarrow> yearData list" where
  "calculateSimulation p =
     calculateSimulation_loop p 0 [] (initialAssets p * (initialWithdrawalRate p / 100))"

declare calculateSimulation_loop.simps [simp del]

text \<open>
  The value of \<open>lastYearActualWithdrawal\<close> when the body runs for the index
  \<open>k\<close>,
  read from the output \<open>xs\<close>: the initial withdrawal for the first year, the
  previous
  year's actual withdrawal afterwards (line 158).
\<close>

definition carriedWithdrawal :: "params \<Rightarrow> nat \<Rightarrow> yearData list \<Rightarrow> number" where
  "carriedWithdrawal p k xs =
     (if k = 0 then initialAssets p * (initialWithdrawalRate p / 100)
      else actualWithdrawal (xs ! (k - 1)))"

section \<open>The simulation engine of the second source file\<close>

text \<open>
  An element of \<open>annualData\<close>, built by the handler from a table row: the fields
  \<open>year\<close>, \<open>return\<close> and \<open>inflation\<close> of the source.
\<close>

record annualDatum =
  datum_year :: int
  datum_return :: number
  datum_inflation :: number

record dataParams = simulationParams +
  annualData :: "annualDatum list"

text \<open>
  Reading a property of \<open>annualData[i]\<close> when the array has no such element
  raises a
  \<open>TypeError\<close>. It is the only way in which this version fails.
\<close>

datatype js_error = TypeError

text \<open>
  The body of the loop. Its first statement reads \<open>annualData[i].year\<close>; the
  rest is
  the body of \<open>src/app.js\<close> with the year's figures taken from that element.
\<close>

definition yearBody_annualData ::
  "dataParams \<Rightarrow> nat \<Rightarrow> yearData list \<Rightarrow> number \<Rightarrow> js_error + yearData" where
  "yearBody_annualData p i simulationData lastYearActualWithdrawal =
     (case array_get (annualData p) i of
        None \<Rightarrow> Inl TypeError
      | Some d \<Rightarrow>
          (let startWorth' =
                 (if i = 0 then initialAssets p else endWorth (simulationData ! (i - 1)));
               (inflation', plannedWithdrawal', plannedRate', rule', actualWithdrawal') =
                 (if i = 0
                  then (Some 0, lastYearActualWithdrawal, None, Initial,
                        lastYearActualWithdrawal)
                  else
                    (let inflation' = Some (datum_inflation d);
                         prevReturn = returnRate (simulationData ! (i - 1));
                         (plannedWithdrawal', rule0) =
                           inflationAdjustment p prevReturn startWorth' inflation'
                             lastYearActualWithdrawal;
                         plannedRate' = (plannedWithdrawal' / startWorth') * 100;
                         (rule', actualWithdrawal') =
                           guardrails p plannedRate' plannedWithdrawal' rule0
                     in (inflation', plannedWithdrawal', Some plannedRate', rule',
                         actualWithdrawal')));
               postWithdrawalBalance' = startWorth' - actualWithdrawal';
               returnRate' = Some (datum_return d)
           in Inr \<lparr> year = datum_year d, startWorth = startWorth', inflation = inflation',
                plannedWithdrawal = plannedWithdrawal', plannedRate = plannedRate',
                rule = rule', actualWithdrawal = actualWithdrawal',
                actualRate = (actualWithdrawal' / startWorth') * 100,
                postWithdrawalBalance = postWithdrawalBalance',
                returnRate = returnRate',
                endWorth = postWithdrawalBalance' * (1 + ToNumber returnRate' / 100) \<rparr>))"

function calculateSimulation_annualData_loop ::
  "dataParams \<Rightarrow> nat \<Rightarrow> yearData list \<Rightarrow> number \<Rightarrow> js_error + yearData list" where
  "calculateSimulation_annualData_loop p i simulationData lastYearActualWithdrawal =
     (if int i < simulationYears p
      then (case yearBody_annualData p i simulationData lastYearActualWithdrawal of
              Inl e \<Rightarrow> Inl e
            | Inr yd \<Rightarrow>
                calculateSimulation_annualData_loop p (Suc i) (simulationData @ [yd])
                  (actualWithdrawal yd))
      else Inr simulationData)"
  by pat_completeness auto
termination
  by (relation "measure (\<lambda>(p, i, sd, w). nat (simulationYears p - int i))") auto

definition calculateSimulation_annualData :: "dataParams \<Rightarrow> js_error + yearData list" where
  "calculateSimulation_annualData p =
     calculateSimulation_annualData_loop p 0 []
       (initialAssets p * (initialWithdrawalRate p / 100))"

declare calculateSimulation_annualData_loop.simps [simp del]

text \<open>
  The two versions compared: the parameters of the second as parameters of the first,
  and the output of the first with the year labels of \<open>annualData\<close>.
\<close>

definition asArrays :: "dataParams \<Rightarrow> params" where
  "asArrays q =
     \<lparr> initialAssets = initialAssets q, initialWithdrawalRate = initialWithdrawalRate q,
       simulationYears = simulationYears q,
       annualReturns = map datum_return (annualData q),
       annualInflations = map datum_inflation (annualData q) \<rparr>"

definition relabel :: "annualDatum list \<Rightarrow> yearData list \<Rightarrow> yearData list" where
  "relabel ds ys = map (\<lambda>(d, y). y\<lparr>year := datum_year d\<rparr>) (zip ds ys)"

section \<open>Concrete runs\<close>

text \<open>
  Scenario A of the specification: one year, return 10, inflation 0.
\<close>

definition scenarioA :: params where
  "scenarioA = \<lparr> initialAssets = 1000000, initialWithdrawalRate = 5, simulationYears = 1,
     annualReturns = [10], annualInflations = [0] \<rparr>"

text \<open>
  Scenario B of the specification: the first year returns -5, the second year has
  inflation 5.
\<close>

definition scenarioB :: params where
  "scenarioB = \<lparr> initialAssets = 1000000, initialWithdrawalRate = 5, simulationYears = 2,
     annualReturns = [-5, 10], annualInflations = [0, 5] \<rparr>"

text \<open>
  Scenario B with a first-year return of -20 instead of -5.
\<close>

definition deepLoss :: params where
  "deepLoss = \<lparr> initialAssets = 1000000, initialWithdrawalRate = 5, simulationYears = 2,
     annualReturns = [-20, 10], annualInflations = [0, 5] \<rparr>"

text \<open>
  A second year whose inflation of 8 is above the cap.
\<close>

definition highInflation :: params where
  "highInflation = \<lparr> initialAssets = 1000000, initialWithdrawalRate = 5, simulationYears = 2,
     annualReturns = [10, 10], annualInflations = [0, 8] \<rparr>"


text \<open>
  A run of zero years.
\<close>

definition noYears :: params where
  "noYears = \<lparr> initialAssets = 1000000, initialWithdrawalRate = 5, simulationYears = 0,
     annualReturns = [], annualInflations = [] \<rparr>"

text \<open>
  Two years asked for, with arrays of one element.
\<close>

definition shortData :: params where
  "shortData = \<lparr> initialAssets = 1000000, initialWithdrawalRate = 5, simulationYears = 2,
     annualReturns = [10], annualInflations = [0] \<rparr>"

text \<open>
  A run whose \<open>initialAssets\<close> is \<open>NaN\<close>.
\<close>

definition nonFinite :: params where
  "nonFinite = \<lparr> initialAssets = NaN, initialWithdrawalRate = 5, simulationYears = 1,
     annualReturns = [10], annualInflations = [0] \<rparr>"

text \<open>Inputs of the second version: zero years, more data than years, less data than years.\<close>

definition noYearsData :: dataParams where
  "noYearsData = \<lparr> initialAssets = 1000000, initialWithdrawalRate = 5, simulationYears = 0,
     annualData = [] \<rparr>"

definition extraData :: dataParams where
  "extraData = \<lparr> initialAssets = 1000000, initialWithdrawalRate = 5, simulationYears = 1,
     annualData = [\<lparr> datum_year = 2000, datum_return = 10, datum_inflation = 0 \<rparr>,
                   \<lparr> datum_year = 2001, datum_return = 7, datum_inflation = 2 \<rparr>] \<rparr>"

definition missingData :: dataParams where
  "missingData = \<lparr> initialAssets = 1000000, initialWithdrawalRate = 5, simulationYears = 2,
     annualData = [\<lparr> datum_year = 2000, datum_return = 10, datum_inflation = 0 \<rparr>] \<rparr>"

section \<open>Evaluating the model\<close>

lemma numeral_number: "(numeral n :: number) = Fin (numeral n)"
proof (induction n)
  case One
  show ?case by (simp add: one_number_def)
next
  case (Bit0 n)
  show ?case unfolding numeral_Bit0 Bit0.IH plus_number_def by simp
next
  case (Bit1 n)
  show ?case unfolding numeral_Bit1 Bit1.IH plus_number_def one_number_def by simp
qed

lemmas number_eval = numeral_number zero_number_def one_number_def plus_number_def
  uminus_number_def minus_number_def times_number_def divide_number_def less_number_def
  less_eq_number_def ToNumber_def array_get_def

lemmas sim_eval = calculateSimulation_def calculateSimulation_loop.simps yearBody_def
  inflationAdjustment_def guardrails_def lowerGuardrail_def upperGuardrail_def Let_def

lemmas data_eval = calculateSimulation_annualData_def calculateSimulation_annualData_loop.simps
  yearBody_annualData_def inflationAdjustment_def guardrails_def lowerGuardrail_def
  upperGuardrail_def Let_def

section \<open>The loop\<close>

lemma loop_length:
  "length (calculateSimulation_loop p i sd w) = length sd + nat (simulationYears p - int i)"
proof (induction p i sd w rule: calculateSimulation_loop.induct)
  case (1 p i sd w)
  show ?case
  proof (cases "int i < simulationYears p")
    case True
    have "nat (simulationYears p - int i) = Suc (nat (simulationYears p - int (Suc i)))"
      using True by simp
    with True "1.IH" [OF True refl] show ?thesis
      by (subst calculateSimulation_loop.simps) (simp add: Let_def)
  next
    case False
    then show ?thesis by (subst calculateSimulation_loop.simps) simp
  qed
qed

lemma yearBody_cong:
  assumes "0 < k \<Longrightarrow> xs ! (k - 1) = ys ! (k - 1)"
  shows "yearBody p k xs w = yearBody p k ys w"
proof (cases "k = 0")
  case True
  then show ?thesis by (simp add: yearBody_def)
next
  case False
  with assms have "xs ! (k - 1) = ys ! (k - 1)" by simp
  then show ?thesis by (simp add: yearBody_def)
qed

lemma loop_nth:
  assumes "length sd = i"
    and "\<And>k. k < i \<Longrightarrow> sd ! k = yearBody p k sd (carriedWithdrawal p k sd)"
    and "w = carriedWithdrawal p i sd"
    and "k < length (calculateSimulation_loop p i sd w)"
  shows "calculateSimulation_loop p i sd w ! k =
         yearBody p k (calculateSimulation_loop p i sd w)
           (carriedWithdrawal p k (calculateSimulation_loop p i sd w))"
  using assms
proof (induction p i sd w rule: calculateSimulation_loop.induct)
  case (1 p i sd w)
  show ?case
  proof (cases "int i < simulationYears p")
    case False
    then have eq: "calculateSimulation_loop p i sd w = sd"
      by (subst calculateSimulation_loop.simps) simp
    with "1.prems" show ?thesis by simp
  next
    case True
    define yd where "yd = yearBody p i sd w"
    have eq: "calculateSimulation_loop p i sd w =
              calculateSimulation_loop p (Suc i) (sd @ [yd]) (actualWithdrawal yd)"
      using True by (subst calculateSimulation_loop.simps) (simp add: Let_def yd_def)
    have len: "length (sd @ [yd]) = Suc i"
      using "1.prems"(1) by simp
    have old: "(sd @ [yd]) ! j = yearBody p j (sd @ [yd]) (carriedWithdrawal p j (sd @ [yd]))"
      if "j < Suc i" for j
    proof (cases "j < i")
      case True
      have "(sd @ [yd]) ! j = sd ! j"
        using True "1.prems"(1) by (simp add: nth_append)
      also have "\<dots> = yearBody p j sd (carriedWithdrawal p j sd)"
        using True "1.prems"(2) by simp
      also have "carriedWithdrawal p j sd = carriedWithdrawal p j (sd @ [yd])"
        using True "1.prems"(1) by (auto simp add: carriedWithdrawal_def nth_append)
      also have "yearBody p j sd (carriedWithdrawal p j (sd @ [yd])) =
                 yearBody p j (sd @ [yd]) (carriedWithdrawal p j (sd @ [yd]))"
        using True "1.prems"(1) by (intro yearBody_cong) (auto simp add: nth_append)
      finally show ?thesis .
    next
      case False
      with that have j: "j = i" by simp
      have "(sd @ [yd]) ! i = yd"
        using "1.prems"(1) by (simp add: nth_append)
      also have "yd = yearBody p i sd (carriedWithdrawal p i sd)"
        using "1.prems"(3) by (simp add: yd_def)
      also have "carriedWithdrawal p i sd = carriedWithdrawal p i (sd @ [yd])"
        using "1.prems"(1) by (auto simp add: carriedWithdrawal_def nth_append)
      also have "yearBody p i sd (carriedWithdrawal p i (sd @ [yd])) =
                 yearBody p i (sd @ [yd]) (carriedWithdrawal p i (sd @ [yd]))"
        using "1.prems"(1) by (intro yearBody_cong) (auto simp add: nth_append)
      finally show ?thesis using j by simp
    qed
    have w': "actualWithdrawal yd = carriedWithdrawal p (Suc i) (sd @ [yd])"
      using "1.prems"(1) by (auto simp add: carriedWithdrawal_def nth_append)
    have "k < length (calculateSimulation_loop p (Suc i) (sd @ [yd]) (actualWithdrawal yd))"
      using "1.prems"(4) eq by simp
    from "1.IH" [OF True yd_def len old w' this] show ?thesis
      using eq by simp
  qed
qed

lemma calculateSimulation_length:
  "length (calculateSimulation p) = nat (simulationYears p)"
  by (simp add: calculateSimulation_def loop_length)

lemma calculateSimulation_nth:
  assumes "int k < simulationYears p"
  shows "calculateSimulation p ! k =
         yearBody p k (calculateSimulation p) (carriedWithdrawal p k (calculateSimulation p))"
proof -
  have "k < length (calculateSimulation p)"
    using assms by (simp add: calculateSimulation_length)
  then show ?thesis
    unfolding calculateSimulation_def
    by (intro loop_nth) (simp_all add: carriedWithdrawal_def)
qed

lemma calculateSimulation_index:
  "int i < simulationYears p \<Longrightarrow> i < length (calculateSimulation p)"
  by (simp add: calculateSimulation_length)

lemma yearBody_final:
  "year (yearBody p i sd w) = int i"
  "startWorth (yearBody p i sd w) = (if i = 0 then initialAssets p else endWorth (sd ! (i - 1)))"
  "postWithdrawalBalance (yearBody p i sd w) =
     startWorth (yearBody p i sd w) - actualWithdrawal (yearBody p i sd w)"
  "returnRate (yearBody p i sd w) = array_get (annualReturns p) i"
  "endWorth (yearBody p i sd w) =
     postWithdrawalBalance (yearBody p i sd w) *
       (1 + ToNumber (returnRate (yearBody p i sd w)) / 100)"
  "actualRate (yearBody p i sd w) =
     actualWithdrawal (yearBody p i sd w) / startWorth (yearBody p i sd w) * 100"
  by (simp_all add: yearBody_def Let_def case_prod_beta)

lemma yearBody_first:
  "inflation (yearBody p 0 sd w) = Some 0"
  "plannedWithdrawal (yearBody p 0 sd w) = w"
  "plannedRate (yearBody p 0 sd w) = None"
  "rule (yearBody p 0 sd w) = Initial"
  "actualWithdrawal (yearBody p 0 sd w) = w"
  by (simp_all add: yearBody_def Let_def)

lemma yearBody_later:
  assumes "0 < i"
  shows "inflation (yearBody p i sd w) = array_get (annualInflations p) i"
    and "plannedWithdrawal (yearBody p i sd w) =
           fst (inflationAdjustment p (returnRate (sd ! (i - 1))) (endWorth (sd ! (i - 1)))
                  (array_get (annualInflations p) i) w)"
    and "plannedRate (yearBody p i sd w) =
           Some (plannedWithdrawal (yearBody p i sd w) / endWorth (sd ! (i - 1)) * 100)"
    and "rule (yearBody p i sd w) =
           fst (guardrails p (plannedWithdrawal (yearBody p i sd w) / endWorth (sd ! (i - 1)) * 100)
                  (plannedWithdrawal (yearBody p i sd w))
                  (snd (inflationAdjustment p (returnRate (sd ! (i - 1))) (endWorth (sd ! (i - 1)))
                          (array_get (annualInflations p) i) w)))"
    and "actualWithdrawal (yearBody p i sd w) =
           snd (guardrails p (plannedWithdrawal (yearBody p i sd w) / endWorth (sd ! (i - 1)) * 100)
                  (plannedWithdrawal (yearBody p i sd w))
                  (snd (inflationAdjustment p (returnRate (sd ! (i - 1))) (endWorth (sd ! (i - 1)))
                          (array_get (annualInflations p) i) w)))"
  using assms by (simp_all add: yearBody_def Let_def case_prod_beta)

section \<open>The two versions agree\<close>

lemma relabel_snoc:
  "length ys < length ds \<Longrightarrow>
   relabel ds (ys @ [y]) = relabel ds ys @ [y\<lparr>year := datum_year (ds ! length ys)\<rparr>]"
proof (induction ys arbitrary: ds)
  case Nil
  then show ?case by (cases ds) (simp_all add: relabel_def)
next
  case (Cons a ys)
  then show ?case by (cases ds) (simp_all add: relabel_def)
qed

lemma relabel_nth:
  "k < length ys \<Longrightarrow> k < length ds \<Longrightarrow> relabel ds ys ! k = (ys ! k)\<lparr>year := datum_year (ds ! k)\<rparr>"
  by (simp add: relabel_def)

lemma guardrails_asArrays: "guardrails (asArrays q) = guardrails q"
  by (simp add: fun_eq_iff guardrails_def lowerGuardrail_def upperGuardrail_def asArrays_def)

lemma inflationAdjustment_asArrays: "inflationAdjustment (asArrays q) = inflationAdjustment q"
  by (simp add: fun_eq_iff inflationAdjustment_def asArrays_def)

lemma yearBody_annualData_missing:
  "length (annualData q) \<le> i \<Longrightarrow> yearBody_annualData q i sd w = Inl TypeError"
  by (simp add: yearBody_annualData_def array_get_def)

lemma yearBody_annualData_present:
  assumes "i < length (annualData q)" and "length sd = i"
  shows "yearBody_annualData q i (relabel (annualData q) sd) w =
         Inr ((yearBody (asArrays q) i sd w)\<lparr>year := datum_year (annualData q ! i)\<rparr>)"
proof (cases "i = 0")
  case True
  with assms show ?thesis
    by (simp add: yearBody_annualData_def yearBody_def array_get_def Let_def asArrays_def)
next
  case False
  with assms have prev: "relabel (annualData q) sd ! (i - 1) =
      (sd ! (i - 1))\<lparr>year := datum_year (annualData q ! (i - 1))\<rparr>"
    by (intro relabel_nth) auto
  from False assms show ?thesis
    unfolding yearBody_annualData_def yearBody_def prev
    by (simp add: array_get_def Let_def case_prod_beta guardrails_asArrays
        inflationAdjustment_asArrays) (simp add: asArrays_def)
qed

lemma loop_annualData:
  assumes "length sd = i" and "i \<le> length (annualData q)" and "p = asArrays q"
  shows "calculateSimulation_annualData_loop q i (relabel (annualData q) sd) w =
         (if nat (simulationYears q) \<le> length (annualData q)
          then Inr (relabel (annualData q) (calculateSimulation_loop p i sd w))
          else Inl TypeError)"
  using assms
proof (induction p i sd w rule: calculateSimulation_loop.induct)
  case (1 p i sd w)
  have years: "simulationYears p = simulationYears q"
    using "1.prems"(3) by (simp add: asArrays_def)
  show ?case
  proof (cases "int i < simulationYears q")
    case False
    then have "calculateSimulation_loop p i sd w = sd"
      by (subst calculateSimulation_loop.simps) (simp add: years)
    moreover have "calculateSimulation_annualData_loop q i (relabel (annualData q) sd) w =
        Inr (relabel (annualData q) sd)"
      using False by (subst calculateSimulation_annualData_loop.simps) simp
    moreover have "nat (simulationYears q) \<le> length (annualData q)"
      using False "1.prems"(2) by simp
    ultimately show ?thesis by simp
  next
    case True
    show ?thesis
    proof (cases "i < length (annualData q)")
      case False
      then have "yearBody_annualData q i (relabel (annualData q) sd) w = Inl TypeError"
        by (simp add: yearBody_annualData_missing)
      then have "calculateSimulation_annualData_loop q i (relabel (annualData q) sd) w =
          Inl TypeError"
        using True by (subst calculateSimulation_annualData_loop.simps) simp
      moreover have "\<not> nat (simulationYears q) \<le> length (annualData q)"
        using True False by simp
      ultimately show ?thesis by simp
    next
      case present: True
      define yd where "yd = yearBody p i sd w"
      define yd' where "yd' = yd\<lparr>year := datum_year (annualData q ! i)\<rparr>"
      have body: "yearBody_annualData q i (relabel (annualData q) sd) w = Inr yd'"
        using yearBody_annualData_present [OF present "1.prems"(1)] "1.prems"(3)
        by (simp add: yd_def yd'_def)
      have snoc: "relabel (annualData q) sd @ [yd'] = relabel (annualData q) (sd @ [yd])"
        using present "1.prems"(1) by (simp add: relabel_snoc yd'_def)
      have "calculateSimulation_annualData_loop q i (relabel (annualData q) sd) w =
          calculateSimulation_annualData_loop q (Suc i) (relabel (annualData q) (sd @ [yd]))
            (actualWithdrawal yd)"
        using True body snoc
        by (subst calculateSimulation_annualData_loop.simps) (simp add: yd'_def)
      moreover have "calculateSimulation_loop p i sd w =
          calculateSimulation_loop p (Suc i) (sd @ [yd]) (actualWithdrawal yd)"
        using True years
        by (subst calculateSimulation_loop.simps) (simp add: Let_def yd_def)
      moreover have "calculateSimulation_annualData_loop q (Suc i)
            (relabel (annualData q) (sd @ [yd])) (actualWithdrawal yd) =
          (if nat (simulationYears q) \<le> length (annualData q)
           then Inr (relabel (annualData q)
                       (calculateSimulation_loop p (Suc i) (sd @ [yd]) (actualWithdrawal yd)))
           else Inl TypeError)"
      proof (rule "1.IH" [OF _ yd_def])
        show "int i < simulationYears p" using True years by simp
        show "length (sd @ [yd]) = Suc i" using "1.prems"(1) by simp
        show "Suc i \<le> length (annualData q)" using present by simp
        show "p = asArrays q" by (rule "1.prems"(3))
      qed
      ultimately show ?thesis by simp
    qed
  qed
qed

lemma calculateSimulation_annualData_eq:
  "calculateSimulation_annualData q =
     (if nat (simulationYears q) \<le> length (annualData q)
      then Inr (relabel (annualData q) (calculateSimulation (asArrays q)))
      else Inl TypeError)"
proof -
  have "calculateSimulation_annualData_loop q 0 (relabel (annualData q) []) 
          (initialAssets q * (initialWithdrawalRate q / 100)) =
        (if nat (simulationYears q) \<le> length (annualData q)
         then Inr (relabel (annualData q)
                (calculateSimulation_loop (asArrays q) 0 []
                   (initialAssets q * (initialWithdrawalRate q / 100))))
         else Inl TypeError)"
    by (rule loop_annualData) simp_all
  then show ?thesis
    by (simp add: calculateSimulation_annualData_def calculateSimulation_def relabel_def
        asArrays_def)
qed

section \<open>Properties of the simulation\<close>

text \<open>
  C3 (chaining). Every year that the run simulates has a result, the first result starts
  from \<open>initialAssets\<close>, and every later result starts from the end worth of the
  result before it.
\<close>

theorem chaining:
  assumes "int i < simulationYears p"
  shows "i < length (calculateSimulation p) \<and>
         startWorth (calculateSimulation p ! i) =
           (if i = 0 then initialAssets p else endWorth (calculateSimulation p ! (i - 1)))"
  using calculateSimulation_index [OF assms] calculateSimulation_nth [OF assms]
  by (simp add: yearBody_final)

theorem chaining_witness:
  "int 1 < simulationYears scenarioB \<and> 1 < length (calculateSimulation scenarioB) \<and>
   startWorth (calculateSimulation scenarioB ! 0) = Fin 1000000 \<and>
   startWorth (calculateSimulation scenarioB ! 1) = Fin 902500 \<and>
   endWorth (calculateSimulation scenarioB ! 0) = Fin 902500"
  using chaining [of 1 scenarioB] chaining [of 0 scenarioB]
  by (simp add: scenarioB_def sim_eval number_eval)

text \<open>
  C4 (finalization). In every year, the first included, the balance after the withdrawal
  is the start worth minus the actual withdrawal, the end worth is that balance times
  \<open>1 + returnRate / 100\<close> with the year's return read from
  \<open>annualReturns\<close>, and
  the actual rate is the actual withdrawal divided by the start worth, times 100.
\<close>

theorem finalization:
  assumes "int i < simulationYears p" and "y = calculateSimulation p ! i"
  shows "postWithdrawalBalance y = startWorth y - actualWithdrawal y \<and>
         returnRate y = array_get (annualReturns p) i \<and>
         endWorth y = postWithdrawalBalance y * (1 + ToNumber (returnRate y) / 100) \<and>
         actualRate y = actualWithdrawal y / startWorth y * 100"
  unfolding assms(2) calculateSimulation_nth [OF assms(1)]
  by (simp add: yearBody_final)

theorem finalization_witness:
  "int 1 < simulationYears scenarioB \<and>
   postWithdrawalBalance (calculateSimulation scenarioB ! 1) = Fin 902500 - Fin 50000 \<and>
   endWorth (calculateSimulation scenarioB ! 1) = Fin 852500 * (1 + Fin 10 / 100) \<and>
   actualRate (calculateSimulation scenarioB ! 1) = Fin 50000 / Fin 902500 * 100"
  using finalization [of 1 scenarioB "calculateSimulation scenarioB ! 1"]
  by (simp add: scenarioB_def sim_eval number_eval)

text \<open>
  C6 (initial year). When at least one year is simulated, the first result starts from
  \<open>initialAssets\<close>, has inflation 0 and the rule \<open>Initial\<close>, and its planned and
  actual withdrawal are both the initial withdrawal, computed by line 110 as
  \<open>initialAssets * (initialWithdrawalRate / 100)\<close>. The guardrail block does not run:
  no planned rate is assigned and the rule stays. A run of one year returns one result,
  with the rule \<open>Initial\<close>.
\<close>

theorem initial_year:
  assumes "1 \<le> simulationYears p" and "y = calculateSimulation p ! 0"
  shows "length (calculateSimulation p) = nat (simulationYears p) \<and>
         year y = 0 \<and>
         startWorth y = initialAssets p \<and>
         inflation y = Some 0 \<and>
         rule y = Initial \<and>
         plannedRate y = None \<and>
         plannedWithdrawal y = initialAssets p * (initialWithdrawalRate p / 100) \<and>
         actualWithdrawal y = plannedWithdrawal y \<and>
         (simulationYears p = 1 \<longrightarrow> map rule (calculateSimulation p) = [Initial])"
proof -
  have 0: "int 0 < simulationYears p" using assms(1) by simp
  have y: "y = yearBody p 0 (calculateSimulation p)
                 (initialAssets p * (initialWithdrawalRate p / 100))"
    using assms(2) calculateSimulation_nth [OF 0] by (simp add: carriedWithdrawal_def)
  have fields: "year y = 0 \<and> startWorth y = initialAssets p \<and> inflation y = Some 0 \<and>
      rule y = Initial \<and> plannedRate y = None \<and>
      plannedWithdrawal y = initialAssets p * (initialWithdrawalRate p / 100) \<and>
      actualWithdrawal y = plannedWithdrawal y"
    by (simp add: y yearBody_final yearBody_first)
  have one: "map rule (calculateSimulation p) = [Initial]" if "simulationYears p = 1"
  proof -
    have "length (calculateSimulation p) = 1"
      using that by (simp add: calculateSimulation_length)
    then obtain z where z: "calculateSimulation p = [z]"
      by (cases "calculateSimulation p") auto
    with assms(2) fields show ?thesis by simp
  qed
  from fields one show ?thesis
    by (simp add: calculateSimulation_length)
qed

theorem initial_year_witness:
  "1 \<le> simulationYears scenarioA \<and>
   length (calculateSimulation scenarioA) = 1 \<and>
   year (calculateSimulation scenarioA ! 0) = 0 \<and>
   startWorth (calculateSimulation scenarioA ! 0) = Fin 1000000 \<and>
   inflation (calculateSimulation scenarioA ! 0) = Some 0 \<and>
   plannedRate (calculateSimulation scenarioA ! 0) = None \<and>
   plannedWithdrawal (calculateSimulation scenarioA ! 0) = Fin 50000 \<and>
   actualWithdrawal (calculateSimulation scenarioA ! 0) = Fin 50000 \<and>
   map rule (calculateSimulation scenarioA) = [Initial]"
proof -
  have n: "1 \<le> simulationYears scenarioA" by (simp add: scenarioA_def)
  have one: "simulationYears scenarioA = 1" by (simp add: scenarioA_def)
  have w: "initialAssets scenarioA * (initialWithdrawalRate scenarioA / 100) = Fin 50000"
    by (simp add: scenarioA_def number_eval)
  have a: "initialAssets scenarioA = Fin 1000000"
    by (simp add: scenarioA_def number_eval)
  from initial_year [OF n refl, unfolded w] n show ?thesis
    by (simp add: one a zero_number_def)
qed

text \<open>
  Facts about a year after the first, read from the output: each field of the record at
  \<open>i\<close> in terms of the record at \<open>i - 1\<close>.
\<close>

lemma later_year:
  assumes "0 < i" and "int i < simulationYears p"
  shows "calculateSimulation p ! i =
         yearBody p i (calculateSimulation p) (actualWithdrawal (calculateSimulation p ! (i - 1)))"
  using assms(1) calculateSimulation_nth [OF assms(2)] by (simp add: carriedWithdrawal_def)

lemma later_year_startWorth:
  assumes "0 < i" and "int i < simulationYears p"
  shows "startWorth (calculateSimulation p ! i) = endWorth (calculateSimulation p ! (i - 1))"
  using assms(1) by (simp add: later_year [OF assms] yearBody_final)

lemma guardrails_rule:
  "fst (guardrails p r w t) =
     (if r > lowerGuardrail p then CapitalPreservation
      else if r < upperGuardrail p then Prosperity else t)"
  by (simp add: guardrails_def)

lemma guardrails_withdrawal:
  "snd (guardrails p r w t) =
     (if r > lowerGuardrail p then w * 0.9
      else if r < upperGuardrail p then w * 1.1 else w)"
  by (simp add: guardrails_def)

lemma inflationAdjustment_fst:
  "fst (inflationAdjustment p prevReturn sw infl w) =
     (if ToNumber prevReturn < 0 \<and>
         w * (1 + Math_min (ToNumber infl) 6.0 / 100) / sw * 100 > initialWithdrawalRate p
      then w else w * (1 + Math_min (ToNumber infl) 6.0 / 100))"
  by (simp add: inflationAdjustment_def Let_def)

lemma inflationAdjustment_snd:
  "snd (inflationAdjustment p prevReturn sw infl w) =
     (if ToNumber prevReturn < 0 \<and>
         w * (1 + Math_min (ToNumber infl) 6.0 / 100) / sw * 100 > initialWithdrawalRate p
      then InflationFrozen else Inflation)"
  by (simp add: inflationAdjustment_def Let_def)

lemma later_year_fields:
  assumes "0 < i" and "int i < simulationYears p"
    and "y = calculateSimulation p ! i" and "prev = calculateSimulation p ! (i - 1)"
  shows "startWorth y = endWorth prev"
    and "inflation y = array_get (annualInflations p) i"
    and "plannedWithdrawal y =
           fst (inflationAdjustment p (returnRate prev) (startWorth y) (inflation y)
                  (actualWithdrawal prev))"
    and "plannedRate y = Some (plannedWithdrawal y / startWorth y * 100)"
    and "rule y =
           fst (guardrails p (plannedWithdrawal y / startWorth y * 100) (plannedWithdrawal y)
                  (snd (inflationAdjustment p (returnRate prev) (startWorth y) (inflation y)
                          (actualWithdrawal prev))))"
    and "actualWithdrawal y =
           snd (guardrails p (plannedWithdrawal y / startWorth y * 100) (plannedWithdrawal y)
                  (snd (inflationAdjustment p (returnRate prev) (startWorth y) (inflation y)
                          (actualWithdrawal prev))))"
proof -
  have y: "y = yearBody p i (calculateSimulation p) (actualWithdrawal prev)"
    using assms(3,4) later_year [OF assms(1,2)] by simp
  show sw: "startWorth y = endWorth prev"
    using assms(1,4) by (simp add: y yearBody_final)
  show infl: "inflation y = array_get (annualInflations p) i"
    by (simp add: y yearBody_later(1) [OF assms(1)])
  show "plannedWithdrawal y =
           fst (inflationAdjustment p (returnRate prev) (startWorth y) (inflation y)
                  (actualWithdrawal prev))"
    unfolding sw infl unfolding y assms(4) by (rule yearBody_later(2) [OF assms(1)])
  show "plannedRate y = Some (plannedWithdrawal y / startWorth y * 100)"
    unfolding sw unfolding y assms(4) by (rule yearBody_later(3) [OF assms(1)])
  show "rule y =
           fst (guardrails p (plannedWithdrawal y / startWorth y * 100) (plannedWithdrawal y)
                  (snd (inflationAdjustment p (returnRate prev) (startWorth y) (inflation y)
                          (actualWithdrawal prev))))"
    unfolding sw infl unfolding y assms(4) by (rule yearBody_later(4) [OF assms(1)])
  show "actualWithdrawal y =
           snd (guardrails p (plannedWithdrawal y / startWorth y * 100) (plannedWithdrawal y)
                  (snd (inflationAdjustment p (returnRate prev) (startWorth y) (inflation y)
                          (actualWithdrawal prev))))"
    unfolding sw infl unfolding y assms(4) by (rule yearBody_later(5) [OF assms(1)])
qed

text \<open>
  C1 (guardrails). In every year after the first the record carries the planned rate
  \<open>plannedWithdrawal / startWorth * 100\<close>. If it is greater than
  \<open>initialWithdrawalRate * 1.2\<close> the rule is
  \<open>CapitalPreservation\<close> and the actual withdrawal is the planned one times
  0.9. Otherwise, if it is less than \<open>initialWithdrawalRate * 0.8\<close>, the
  rule is \<open>Prosperity\<close> and the actual withdrawal is the planned one times
  1.1. Otherwise the actual withdrawal is the planned one and the rule is the one of the
  inflation step. The capital-preservation test comes first, so a year gets one of the
  two rules at most.
\<close>

theorem guardrail_evaluation:
  assumes "0 < i" and "int i < simulationYears p"
    and "y = calculateSimulation p ! i" and "prev = calculateSimulation p ! (i - 1)"
    and "r = plannedWithdrawal y / startWorth y * 100"
  shows "plannedRate y = Some r \<and>
         lowerGuardrail p = initialWithdrawalRate p * 1.2 \<and>
         upperGuardrail p = initialWithdrawalRate p * 0.8 \<and>
         (if r > lowerGuardrail p
          then rule y = CapitalPreservation \<and> actualWithdrawal y = plannedWithdrawal y * 0.9
          else if r < upperGuardrail p
          then rule y = Prosperity \<and> actualWithdrawal y = plannedWithdrawal y * 1.1
          else actualWithdrawal y = plannedWithdrawal y \<and>
               rule y =
                 (if ToNumber (returnRate prev) < 0 \<and>
                     actualWithdrawal prev * (1 + Math_min (ToNumber (inflation y)) 6.0 / 100)
                       / startWorth y * 100 > initialWithdrawalRate p
                  then InflationFrozen else Inflation))"
  using later_year_fields(4,5,6) [OF assms(1-4)]
  by (simp add: assms(5) guardrails_rule guardrails_withdrawal inflationAdjustment_snd
      lowerGuardrail_def upperGuardrail_def)

lemma scenarioB_run:
  "calculateSimulation scenarioB =
     [\<lparr> year = 0, startWorth = Fin 1000000, inflation = Some (Fin 0),
        plannedWithdrawal = Fin 50000, plannedRate = None, rule = Initial,
        actualWithdrawal = Fin 50000, actualRate = Fin 5,
        postWithdrawalBalance = Fin 950000, returnRate = Some (Fin (- 5)),
        endWorth = Fin 902500 \<rparr>,
      \<lparr> year = 1, startWorth = Fin 902500, inflation = Some (Fin 5),
        plannedWithdrawal = Fin 50000, plannedRate = Some (Fin (2000 / 361)),
        rule = InflationFrozen, actualWithdrawal = Fin 50000,
        actualRate = Fin (2000 / 361), postWithdrawalBalance = Fin 852500,
        returnRate = Some (Fin 10), endWorth = Fin 937750 \<rparr>]"
  by (simp add: scenarioB_def sim_eval number_eval)

lemma deepLoss_run:
  "calculateSimulation deepLoss =
     [\<lparr> year = 0, startWorth = Fin 1000000, inflation = Some (Fin 0),
        plannedWithdrawal = Fin 50000, plannedRate = None, rule = Initial,
        actualWithdrawal = Fin 50000, actualRate = Fin 5,
        postWithdrawalBalance = Fin 950000, returnRate = Some (Fin (- 20)),
        endWorth = Fin 760000 \<rparr>,
      \<lparr> year = 1, startWorth = Fin 760000, inflation = Some (Fin 5),
        plannedWithdrawal = Fin 50000, plannedRate = Some (Fin (125 / 19)),
        rule = CapitalPreservation, actualWithdrawal = Fin 45000,
        actualRate = Fin (225 / 38), postWithdrawalBalance = Fin 715000,
        returnRate = Some (Fin 10), endWorth = Fin 786500 \<rparr>]"
  by (simp add: deepLoss_def sim_eval number_eval)

theorem guardrail_evaluation_witness:
  "0 < (1::nat) \<and> int 1 < simulationYears deepLoss \<and>
   plannedRate (calculateSimulation deepLoss ! 1) = Some (Fin (125 / 19)) \<and>
   Fin (125 / 19) > lowerGuardrail deepLoss \<and>
   rule (calculateSimulation deepLoss ! 1) = CapitalPreservation \<and>
   plannedWithdrawal (calculateSimulation deepLoss ! 1) = Fin 50000 \<and>
   actualWithdrawal (calculateSimulation deepLoss ! 1) = Fin 50000 * 0.9"
proof -
  have i: "0 < (1::nat)" by simp
  have n: "int 1 < simulationYears deepLoss" by (simp add: deepLoss_def)
  have low: "lowerGuardrail deepLoss = Fin 6"
    by (simp add: lowerGuardrail_def deepLoss_def number_eval)
  from guardrail_evaluation [OF i n refl refl refl] i n show ?thesis
    by (simp add: deepLoss_run low) (simp add: deepLoss_def number_eval)
qed

text \<open>
  C2 (inflation freeze). In every year after the first, with
  \<open>rateWithInflation\<close> computed from the previous actual withdrawal, the
  capped inflation and the start worth: if the previous return is negative and
  \<open>rateWithInflation\<close> is greater than \<open>initialWithdrawalRate\<close>,
  the planned withdrawal is the previous actual withdrawal and the inflation step
  assigns \<open>InflationFrozen\<close>; otherwise the planned withdrawal is the one
  with inflation and the step assigns \<open>Inflation\<close>. The comparison is with
  the parameter \<open>initialWithdrawalRate\<close>. The tag of the step is the rule of
  the record unless a guardrail replaces it.
\<close>

theorem inflation_freeze:
  assumes "0 < i" and "int i < simulationYears p"
    and "y = calculateSimulation p ! i" and "prev = calculateSimulation p ! (i - 1)"
    and "withdrawalWithInflation =
           actualWithdrawal prev
             * (1 + Math_min (ToNumber (array_get (annualInflations p) i)) 6.0 / 100)"
    and "rateWithInflation = withdrawalWithInflation / startWorth y * 100"
    and "tag = snd (inflationAdjustment p (returnRate prev) (startWorth y) (inflation y)
                      (actualWithdrawal prev))"
    and "r = plannedWithdrawal y / startWorth y * 100"
  shows "(if ToNumber (returnRate prev) < 0 \<and> rateWithInflation > initialWithdrawalRate p
          then plannedWithdrawal y = actualWithdrawal prev \<and> tag = InflationFrozen
          else plannedWithdrawal y = withdrawalWithInflation \<and> tag = Inflation) \<and>
         rule y =
           (if r > lowerGuardrail p then CapitalPreservation
            else if r < upperGuardrail p then Prosperity else tag)"
  using later_year_fields(2,3,5) [OF assms(1-4)]
  by (simp add: assms(5-8) guardrails_rule inflationAdjustment_fst inflationAdjustment_snd)

theorem inflation_freeze_witness:
  "0 < (1::nat) \<and> int 1 < simulationYears scenarioB \<and>
   ToNumber (returnRate (calculateSimulation scenarioB ! 0)) < 0 \<and>
   Fin 52500 / startWorth (calculateSimulation scenarioB ! 1) * 100
     > initialWithdrawalRate scenarioB \<and>
   plannedWithdrawal (calculateSimulation scenarioB ! 1) = Fin 50000 \<and>
   actualWithdrawal (calculateSimulation scenarioB ! 0) = Fin 50000 \<and>
   rule (calculateSimulation scenarioB ! 1) = InflationFrozen"
proof -
  have i: "0 < (1::nat)" by simp
  have n: "int 1 < simulationYears scenarioB" by (simp add: scenarioB_def)
  from inflation_freeze [OF i n refl refl refl refl refl refl] i n show ?thesis
    by (simp add: scenarioB_run)
      (simp add: scenarioB_def number_eval)
qed

lemma capped_factor_bound: "\<not> (1 + Math_min x 6.0 / 100 > (106 / 100 :: number))"
  by (cases x) (simp_all add: number_eval)

text \<open>
  C5 (inflation cap). In every year after the first, the factor by which the previous
  actual withdrawal is multiplied is \<open>1 + min(inflation, 6) / 100\<close>, with
  the year's inflation read from \<open>annualInflations\<close>; the planned withdrawal
  is the previous withdrawal times that factor, or the previous withdrawal itself in a
  frozen year; and the factor is never greater than 1.06.
\<close>

theorem inflation_cap:
  assumes "0 < i" and "int i < simulationYears p"
    and "y = calculateSimulation p ! i" and "prev = calculateSimulation p ! (i - 1)"
    and "factor = 1 + Math_min (ToNumber (array_get (annualInflations p) i)) 6.0 / 100"
  shows "inflation y = array_get (annualInflations p) i \<and>
         plannedWithdrawal y =
           (if ToNumber (returnRate prev) < 0 \<and>
               actualWithdrawal prev * factor / startWorth y * 100 > initialWithdrawalRate p
            then actualWithdrawal prev else actualWithdrawal prev * factor) \<and>
         \<not> (factor > 106 / 100)"
  using later_year_fields(2,3) [OF assms(1-4)] capped_factor_bound
  by (simp add: assms(5) inflationAdjustment_fst)

theorem inflation_cap_witness:
  "0 < (1::nat) \<and> int 1 < simulationYears highInflation \<and>
   inflation (calculateSimulation highInflation ! 1) = Some (Fin 8) \<and>
   actualWithdrawal (calculateSimulation highInflation ! 0) = Fin 50000 \<and>
   plannedWithdrawal (calculateSimulation highInflation ! 1) = Fin 50000 * Fin (106 / 100)"
  using inflation_cap [of 1 highInflation "calculateSimulation highInflation ! 1"
      "calculateSimulation highInflation ! 0" "Fin (106 / 100)"]
  by (simp add: highInflation_def sim_eval number_eval)


text \<open>
  C8 as stated fails. With a first-year return of -20 and a second-year inflation of 5
  the freeze condition holds, but the frozen planned rate is above the lower guardrail:
  the rule of the second year is \<open>CapitalPreservation\<close> and its actual
  withdrawal is 45000, not the 50000 of the first year.
\<close>

theorem scenarioB_guardrail_counterexample:
  "ToNumber (returnRate (calculateSimulation deepLoss ! 0)) < 0 \<and>
   inflation (calculateSimulation deepLoss ! 1) = Some 5 \<and>
   actualWithdrawal (calculateSimulation deepLoss ! 0) * (1 + Math_min 5 6.0 / 100)
     / startWorth (calculateSimulation deepLoss ! 1) * 100 > initialWithdrawalRate deepLoss \<and>
   rule (calculateSimulation deepLoss ! 1) = CapitalPreservation \<and>
   actualWithdrawal (calculateSimulation deepLoss ! 0) = Fin 50000 \<and>
   actualWithdrawal (calculateSimulation deepLoss ! 1) = Fin 45000 \<and>
   \<not> (rule (calculateSimulation deepLoss ! 1) = InflationFrozen \<and>
      actualWithdrawal (calculateSimulation deepLoss ! 1) =
        actualWithdrawal (calculateSimulation deepLoss ! 0))"
  by (simp add: deepLoss_run) (simp add: deepLoss_def number_eval)

text \<open>
  C8, amended. When the first year has a negative return, the second year has inflation
  5 and its \<open>rateWithInflation\<close> is greater than
  \<open>initialWithdrawalRate\<close>, the planned withdrawal of the second year is the
  actual withdrawal of the first. The guardrails are evaluated after that: above the
  lower guardrail the rule is \<open>CapitalPreservation\<close> and the withdrawal is
  cut by a tenth, below the upper guardrail the rule is \<open>Prosperity\<close> and
  the withdrawal is raised by a tenth, and otherwise the rule is
  \<open>InflationFrozen\<close> and the actual withdrawal is the one of the first year.
\<close>

theorem scenarioB_freeze:
  assumes "1 < simulationYears p"
    and "y0 = calculateSimulation p ! 0" and "y1 = calculateSimulation p ! 1"
    and "ToNumber (returnRate y0) < 0"
    and "inflation y1 = Some 5"
    and "actualWithdrawal y0 * (1 + Math_min 5 6.0 / 100) / startWorth y1 * 100
           > initialWithdrawalRate p"
    and "r = plannedWithdrawal y1 / startWorth y1 * 100"
  shows "plannedWithdrawal y1 = actualWithdrawal y0 \<and>
         (if r > lowerGuardrail p
          then rule y1 = CapitalPreservation \<and> actualWithdrawal y1 = actualWithdrawal y0 * 0.9
          else if r < upperGuardrail p
          then rule y1 = Prosperity \<and> actualWithdrawal y1 = actualWithdrawal y0 * 1.1
          else rule y1 = InflationFrozen \<and> actualWithdrawal y1 = actualWithdrawal y0)"
proof -
  have i: "0 < (1::nat)" by simp
  have n: "int 1 < simulationYears p" using assms(1) by simp
  have y0: "y0 = calculateSimulation p ! (1 - 1)" using assms(2) by simp
  note f = later_year_fields [OF i n assms(3) y0]
  have frozen: "ToNumber (returnRate y0) < 0 \<and>
      actualWithdrawal y0 * (1 + Math_min (ToNumber (inflation y1)) 6.0 / 100)
        / startWorth y1 * 100 > initialWithdrawalRate p"
    using assms(4,5,6) by (simp add: ToNumber_def)
  have pw: "plannedWithdrawal y1 = actualWithdrawal y0"
    using f(3) frozen by (simp add: inflationAdjustment_fst)
  have tag: "snd (inflationAdjustment p (returnRate y0) (startWorth y1) (inflation y1)
                    (actualWithdrawal y0)) = InflationFrozen"
    using frozen by (simp add: inflationAdjustment_snd)
  show ?thesis
    using f(5,6) pw tag
    by (simp add: assms(7) guardrails_rule guardrails_withdrawal)
qed

theorem scenarioB_freeze_witness:
  "1 < simulationYears scenarioB \<and>
   ToNumber (returnRate (calculateSimulation scenarioB ! 0)) < 0 \<and>
   inflation (calculateSimulation scenarioB ! 1) = Some 5 \<and>
   plannedWithdrawal (calculateSimulation scenarioB ! 1) = Fin 50000 \<and>
   rule (calculateSimulation scenarioB ! 1) = InflationFrozen \<and>
   actualWithdrawal (calculateSimulation scenarioB ! 1) =
     actualWithdrawal (calculateSimulation scenarioB ! 0)"
proof -
  have n: "1 < simulationYears scenarioB" by (simp add: scenarioB_def)
  have neg: "ToNumber (returnRate (calculateSimulation scenarioB ! 0)) < 0"
    by (simp add: scenarioB_run) (simp add: number_eval)
  have infl: "inflation (calculateSimulation scenarioB ! 1) = Some 5"
    by (simp add: scenarioB_run) (simp add: number_eval)
  have rate: "actualWithdrawal (calculateSimulation scenarioB ! 0) * (1 + Math_min 5 6.0 / 100)
      / startWorth (calculateSimulation scenarioB ! 1) * 100 > initialWithdrawalRate scenarioB"
    by (simp add: scenarioB_run) (simp add: scenarioB_def number_eval)
  from scenarioB_freeze [OF n refl refl neg infl rate refl] n neg infl show ?thesis
    by (simp add: scenarioB_run)
qed

text \<open>
  C7 as stated fails. Neither version of \<open>calculateSimulation\<close> has a check or a
  \<open>throw\<close>. In \<open>src/app.js\<close> a run of zero years returns the
  empty sequence, a run
  with arrays shorter than \<open>simulationYears\<close> returns a record for every
  year, with
  \<open>NaN\<close> where the missing entry is used, and a run from \<open>NaN\<close>
  assets returns a
  record of \<open>NaN\<close>. In the second file a run of zero years returns the empty
  sequence
  and a run with more data than years returns its records.
\<close>

theorem no_validation_counterexample:
  "simulationYears noYears < 1 \<and> calculateSimulation noYears = [] \<and>
   length (annualReturns shortData) \<noteq> nat (simulationYears shortData) \<and>
   map endWorth (calculateSimulation shortData) = [Fin 1045000, NaN] \<and>
   initialAssets nonFinite = NaN \<and>
   map endWorth (calculateSimulation nonFinite) = [NaN] \<and>
   simulationYears noYearsData < 1 \<and> calculateSimulation_annualData noYearsData = Inr [] \<and>
   length (annualData extraData) \<noteq> nat (simulationYears extraData) \<and>
   calculateSimulation_annualData extraData =
     Inr [\<lparr> year = 2000, startWorth = Fin 1000000, inflation = Some (Fin 0),
        plannedWithdrawal = Fin 50000, plannedRate = None, rule = Initial,
        actualWithdrawal = Fin 50000, actualRate = Fin 5,
        postWithdrawalBalance = Fin 950000, returnRate = Some (Fin 10),
        endWorth = Fin 1045000 \<rparr>]"
  by (simp add: noYears_def shortData_def nonFinite_def sim_eval number_eval
      noYearsData_def extraData_def data_eval)

text \<open>
  C7, amended. For every input the \<open>calculateSimulation\<close> of
  \<open>src/app.js\<close>
  returns a sequence, with one record for each index below
  \<open>simulationYears\<close>; the
  sequence is empty exactly when \<open>simulationYears\<close> is less than 1. The
  version of
  the second file does the same when \<open>annualData\<close> has at least
  \<open>simulationYears\<close>
  elements, and fails, with a \<open>TypeError\<close>, exactly when it has fewer.
\<close>

theorem no_validation:
  "length (calculateSimulation p) = nat (simulationYears p) \<and>
   (calculateSimulation p = []) = (simulationYears p < 1) \<and>
   (case calculateSimulation_annualData q of
      Inl e \<Rightarrow> e = TypeError \<and> length (annualData q) < nat (simulationYears q)
    | Inr rs \<Rightarrow> length rs = nat (simulationYears q) \<and>
               nat (simulationYears q) \<le> length (annualData q)) \<and>
   (calculateSimulation_annualData q = Inr []) = (simulationYears q < 1)"
proof -
  have len: "length (calculateSimulation p) = nat (simulationYears p)" for p
    by (simp add: calculateSimulation_def loop_length)
  have "(calculateSimulation p = []) = (length (calculateSimulation p) = 0)" by simp
  also have "\<dots> = (simulationYears p < 1)" unfolding len by auto
  finally have empty: "(calculateSimulation p = []) = (simulationYears p < 1)" .
  have years: "simulationYears (asArrays q) = simulationYears q"
    by (simp add: asArrays_def)
  have rl: "length (relabel (annualData q) (calculateSimulation (asArrays q))) =
      min (length (annualData q)) (nat (simulationYears q))"
    by (simp add: relabel_def len years)
  have data: "(case calculateSimulation_annualData q of
      Inl e \<Rightarrow> e = TypeError \<and> length (annualData q) < nat (simulationYears q)
    | Inr rs \<Rightarrow> length rs = nat (simulationYears q) \<and>
               nat (simulationYears q) \<le> length (annualData q))"
    unfolding calculateSimulation_annualData_eq using rl by auto
  have "(calculateSimulation_annualData q = Inr []) = (simulationYears q < 1)"
  proof (cases "nat (simulationYears q) \<le> length (annualData q)")
    case True
    then have "(calculateSimulation_annualData q = Inr []) =
        (length (relabel (annualData q) (calculateSimulation (asArrays q))) = 0)"
      unfolding calculateSimulation_annualData_eq by simp
    also have "\<dots> = (simulationYears q < 1)"
      unfolding rl using True by auto
    finally show ?thesis .
  next
    case False
    then show ?thesis
      unfolding calculateSimulation_annualData_eq by auto
  qed
  with len empty data show ?thesis by simp
qed

text \<open>The failure of the second version, on two years with one element of data.\<close>

lemma missingData_run: "calculateSimulation_annualData missingData = Inl TypeError"
  by (simp add: missingData_def data_eval number_eval)

text \<open>
  C9. The record of the first year has no \<open>plannedRate\<close>: in scenario A the
  field is \<open>undefined\<close> although the planned withdrawal is 5 percent of the
  start worth. The records of later years carry it.
\<close>

theorem planned_rate_missing_in_first_year:
  "plannedRate (calculateSimulation scenarioA ! 0) = None \<and>
   plannedWithdrawal (calculateSimulation scenarioA ! 0)
     / startWorth (calculateSimulation scenarioA ! 0) * 100 = Fin 5 \<and>
   plannedRate (calculateSimulation scenarioB ! 1) =
     Some (plannedWithdrawal (calculateSimulation scenarioB ! 1)
             / startWorth (calculateSimulation scenarioB ! 1) * 100)"
  by (simp add: scenarioB_run) (simp add: scenarioA_def sim_eval number_eval)




end
